theory Spec2Isabelle
  imports Complex_Main
begin

section \<open>Python numbers\<close>

text \<open>
  The fitness tracker \<^verbatim>\<open>homework.py\<close> computes with Python \<^verbatim>\<open>int\<close> and
  \<^verbatim>\<open>float\<close> values. An \<^verbatim>\<open>int\<close> is an unbounded integer. A \<^verbatim>\<open>float\<close> is an
  IEEE 754 binary64 number: a finite value (a dyadic rational, kept here by its exact
  value), a zero of either sign, an infinity or NaN. \<open>Finite 0\<close> is \<^verbatim>\<open>0.0\<close> and
  \<open>NegZero\<close> is \<^verbatim>\<open>-0.0\<close>.
\<close>

datatype double = Finite real | NegZero | PosInf | NegInf | NaN

datatype pynum = PyInt int | PyFloat double

datatype error =
    ValueError string
  | ZeroDivisionError
  | OverflowError
  | NotImplementedError string
  | TypeError

subsection \<open>Rounding to binary64\<close>

text \<open>
  Every float operation returns the exact result rounded to the nearest binary64 value,
  ties to the value with an even significand.
\<close>

fun bit_length :: "nat \<Rightarrow> nat" where
  "bit_length n = (if n = 0 then 0 else Suc (bit_length (n div 2)))"

declare bit_length.simps [simp del]

definition pow2 :: "int \<Rightarrow> real" where
  "pow2 e = (if 0 \<le> e then 2 ^ nat e else 1 / 2 ^ nat (- e))"

text \<open>\<open>ilog2 q\<close> is the integer \<open>k\<close> with \<open>2^k \<le> q < 2^(k+1)\<close>, for \<open>q > 0\<close>.\<close>

definition ilog2 :: "real \<Rightarrow> int" where
  "ilog2 q =
     (if 1 \<le> q then int (bit_length (nat \<lfloor>q\<rfloor>)) - 1
      else (let k = int (bit_length (nat \<lfloor>1 / q\<rfloor>)) - 1
            in if q = pow2 (- k) then - k else - k - 1))"

definition round_half_even :: "real \<Rightarrow> int" where
  "round_half_even x =
     (let f = \<lfloor>x\<rfloor>; d = x - of_int f
      in if d < 1 / 2 then f else if 1 / 2 < d then f + 1
         else if even f then f else f + 1)"

text \<open>
  The significand has 53 bits, the unit in the last place is at least \<open>2^-1074\<close>
  (gradual underflow), and a rounded magnitude of \<open>2^1024\<close> or more overflows. A
  nonzero value that rounds to zero keeps its sign.
\<close>

definition binary64 :: "real \<Rightarrow> double" where
  "binary64 q =
     (if q = 0 then Finite 0
      else (let e = max (ilog2 \<bar>q\<bar> - 52) (- 1074);
                v = of_int (round_half_even (\<bar>q\<bar> / pow2 e)) * pow2 e
            in if 2 ^ 1024 \<le> v then (if q < 0 then NegInf else PosInf)
               else if v = 0 \<and> q < 0 then NegZero
               else Finite (sgn q * v)))"

subsection \<open>Float arithmetic\<close>

text \<open>The sign bit of a float, and the value of a float that is finite.\<close>

definition negative :: "double \<Rightarrow> bool" where
  "negative x =
     (case x of
        Finite a \<Rightarrow> a < 0 | NegZero \<Rightarrow> True | PosInf \<Rightarrow> False | NegInf \<Rightarrow> True
      | NaN \<Rightarrow> False)"

definition finite_value :: "double \<Rightarrow> real option" where
  "finite_value x = (case x of Finite a \<Rightarrow> Some a | NegZero \<Rightarrow> Some 0 | _ \<Rightarrow> None)"

definition signed_zero :: "bool \<Rightarrow> double" where
  "signed_zero neg = (if neg then NegZero else Finite 0)"

definition signed_inf :: "bool \<Rightarrow> double" where
  "signed_inf neg = (if neg then NegInf else PosInf)"

definition float_mul :: "double \<Rightarrow> double \<Rightarrow> double" where
  "float_mul x y =
     (if x = NaN \<or> y = NaN then NaN
      else case (finite_value x, finite_value y) of
             (Some a, Some b) \<Rightarrow>
               if a * b = 0 then signed_zero (negative x \<noteq> negative y)
               else binary64 (a * b)
           | (Some a, None) \<Rightarrow>
               if a = 0 then NaN else signed_inf (negative x \<noteq> negative y)
           | (None, Some b) \<Rightarrow>
               if b = 0 then NaN else signed_inf (negative x \<noteq> negative y)
           | (None, None) \<Rightarrow> signed_inf (negative x \<noteq> negative y))"

text \<open>
  A sum that is exactly zero is \<^verbatim>\<open>-0.0\<close> when both terms are negative zeros and
  \<^verbatim>\<open>0.0\<close> otherwise.
\<close>

definition float_add :: "double \<Rightarrow> double \<Rightarrow> double" where
  "float_add x y =
     (if x = NaN \<or> y = NaN then NaN
      else case (finite_value x, finite_value y) of
             (Some a, Some b) \<Rightarrow>
               if a + b = 0 then signed_zero (negative x \<and> negative y)
               else binary64 (a + b)
           | (Some a, None) \<Rightarrow> y
           | (None, Some b) \<Rightarrow> x
           | (None, None) \<Rightarrow> if x = y then x else NaN)"

text \<open>Division by a nonzero float; the caller has raised on a zero divisor.\<close>

definition float_div :: "double \<Rightarrow> double \<Rightarrow> double" where
  "float_div x y =
     (if x = NaN \<or> y = NaN then NaN
      else case (finite_value x, finite_value y) of
             (Some a, Some b) \<Rightarrow>
               if a = 0 then signed_zero (negative x \<noteq> negative y)
               else binary64 (a / b)
           | (Some a, None) \<Rightarrow> signed_zero (negative x \<noteq> negative y)
           | (None, Some b) \<Rightarrow> signed_inf (negative x \<noteq> negative y)
           | (None, None) \<Rightarrow> NaN)"

subsection \<open>The operators \<^verbatim>\<open>*\<close>, \<^verbatim>\<open>/\<close>, \<^verbatim>\<open>+\<close> and \<^verbatim>\<open>** 2\<close>\<close>

definition and_then :: "error + 'a \<Rightarrow> ('a \<Rightarrow> error + 'b) \<Rightarrow> error + 'b" where
  "and_then m f = (case m of Inl e \<Rightarrow> Inl e | Inr x \<Rightarrow> f x)"

text \<open>
  An \<^verbatim>\<open>int\<close> operand of a float operation is converted first; the conversion rounds
  and raises \<^verbatim>\<open>OverflowError\<close> when the integer is too large for a float.
\<close>

definition to_float :: "pynum \<Rightarrow> error + double" where
  "to_float x =
     (case x of
        PyFloat a \<Rightarrow> Inr a
      | PyInt n \<Rightarrow>
          (case binary64 (of_int n) of Finite q \<Rightarrow> Inr (Finite q) | _ \<Rightarrow> Inl OverflowError))"

definition py_mul :: "pynum \<Rightarrow> pynum \<Rightarrow> error + pynum" where
  "py_mul x y =
     (case (x, y) of
        (PyInt m, PyInt n) \<Rightarrow> Inr (PyInt (m * n))
      | _ \<Rightarrow> and_then (to_float x) (\<lambda>a. and_then (to_float y) (\<lambda>b.
               Inr (PyFloat (float_mul a b)))))"

definition py_add :: "pynum \<Rightarrow> pynum \<Rightarrow> error + pynum" where
  "py_add x y =
     (case (x, y) of
        (PyInt m, PyInt n) \<Rightarrow> Inr (PyInt (m + n))
      | _ \<Rightarrow> and_then (to_float x) (\<lambda>a. and_then (to_float y) (\<lambda>b.
               Inr (PyFloat (float_add a b)))))"

text \<open>
  True division. Two integers give the correctly rounded quotient (a zero numerator
  gives a zero with the sign of the divisor), a zero divisor raises
  \<^verbatim>\<open>ZeroDivisionError\<close>, a quotient too large for a float raises
  \<^verbatim>\<open>OverflowError\<close>.
\<close>

definition py_truediv :: "pynum \<Rightarrow> pynum \<Rightarrow> error + pynum" where
  "py_truediv x y =
     (case (x, y) of
        (PyInt m, PyInt n) \<Rightarrow>
          (if n = 0 then Inl ZeroDivisionError
           else if m = 0 then Inr (PyFloat (signed_zero (n < 0)))
           else (case binary64 (of_int m / of_int n) of
                   PosInf \<Rightarrow> Inl OverflowError
                 | NegInf \<Rightarrow> Inl OverflowError
                 | q \<Rightarrow> Inr (PyFloat q)))
      | _ \<Rightarrow> and_then (to_float x) (\<lambda>a. and_then (to_float y) (\<lambda>b.
               if finite_value b = Some 0 then Inl ZeroDivisionError
               else Inr (PyFloat (float_div a b)))))"

text \<open>
  \<^verbatim>\<open>x ** 2\<close>. For a float CPython answers the cases NaN, infinity, zero and
  1 and -1 itself and otherwise calls the C library's \<^verbatim>\<open>pow\<close> on the absolute
  value of \<^verbatim>\<open>x\<close> and \<^verbatim>\<open>2.0\<close>; an infinite result raises \<^verbatim>\<open>OverflowError\<close>.
  The C library is not part of the program and its \<^verbatim>\<open>pow\<close> is not correctly
  rounded, so the function \<open>pw\<close>, which maps a finite positive \<open>a\<close> to the C library's
  \<^verbatim>\<open>pow(a, 2.0)\<close>, is a parameter of the model.
\<close>

definition py_pow2 :: "(real \<Rightarrow> double) \<Rightarrow> pynum \<Rightarrow> error + pynum" where
  "py_pow2 pw x =
     (case x of
        PyInt m \<Rightarrow> Inr (PyInt (m * m))
      | PyFloat NaN \<Rightarrow> Inr (PyFloat NaN)
      | PyFloat PosInf \<Rightarrow> Inr (PyFloat PosInf)
      | PyFloat NegInf \<Rightarrow> Inr (PyFloat PosInf)
      | PyFloat NegZero \<Rightarrow> Inr (PyFloat (Finite 0))
      | PyFloat (Finite a) \<Rightarrow>
          if a = 0 then Inr (PyFloat (Finite 0))
          else if \<bar>a\<bar> = 1 then Inr (PyFloat (Finite 1))
          else (case pw \<bar>a\<bar> of
                  PosInf \<Rightarrow> Inl OverflowError
                | NegInf \<Rightarrow> Inl OverflowError
                | q \<Rightarrow> Inr (PyFloat q)))"

text \<open>
  An expression \<^verbatim>\<open>A * B\<close> evaluates \<^verbatim>\<open>A\<close>, then \<^verbatim>\<open>B\<close>, then multiplies; the
  first exception raised on the way is the exception of the expression.
\<close>

definition mul :: "error + pynum \<Rightarrow> error + pynum \<Rightarrow> error + pynum" where
  "mul A B = and_then A (\<lambda>x. and_then B (\<lambda>y. py_mul x y))"

definition add :: "error + pynum \<Rightarrow> error + pynum \<Rightarrow> error + pynum" where
  "add A B = and_then A (\<lambda>x. and_then B (\<lambda>y. py_add x y))"

definition truediv :: "error + pynum \<Rightarrow> error + pynum \<Rightarrow> error + pynum" where
  "truediv A B = and_then A (\<lambda>x. and_then B (\<lambda>y. py_truediv x y))"

definition pow2nd :: "(real \<Rightarrow> double) \<Rightarrow> error + pynum \<Rightarrow> error + pynum" where
  "pow2nd pw A = and_then A (py_pow2 pw)"

text \<open>An integer literal and a float literal (a decimal, rounded when it is read).\<close>

definition int_lit :: "int \<Rightarrow> error + pynum" where
  "int_lit n = Inr (PyInt n)"

definition float_lit :: "real \<Rightarrow> error + pynum" where
  "float_lit q = Inr (PyFloat (binary64 q))"

section \<open>Strings\<close>

text \<open>
  A Python \<^verbatim>\<open>str\<close> is rendered as its UTF-8 bytes. The Russian words of the
  program's messages are named by their transliteration, with their meaning beside them.
\<close>

definition cyr_Tip :: string where
  \<comment> \<open>type\<close>
  "cyr_Tip =
     [CHR 0xD0, CHR 0xA2, CHR 0xD0, CHR 0xB8, CHR 0xD0, CHR 0xBF]"

definition cyr_trenirovki :: string where
  \<comment> \<open>of the workout\<close>
  "cyr_trenirovki =
     [CHR 0xD1, CHR 0x82, CHR 0xD1, CHR 0x80, CHR 0xD0, CHR 0xB5, CHR 0xD0,
      CHR 0xBD, CHR 0xD0, CHR 0xB8, CHR 0xD1, CHR 0x80, CHR 0xD0, CHR 0xBE,
      CHR 0xD0, CHR 0xB2, CHR 0xD0, CHR 0xBA, CHR 0xD0, CHR 0xB8]"

definition cyr_Dlitelnost :: string where
  \<comment> \<open>duration\<close>
  "cyr_Dlitelnost =
     [CHR 0xD0, CHR 0x94, CHR 0xD0, CHR 0xBB, CHR 0xD0, CHR 0xB8, CHR 0xD1,
      CHR 0x82, CHR 0xD0, CHR 0xB5, CHR 0xD0, CHR 0xBB, CHR 0xD1, CHR 0x8C,
      CHR 0xD0, CHR 0xBD, CHR 0xD0, CHR 0xBE, CHR 0xD1, CHR 0x81, CHR 0xD1,
      CHR 0x82, CHR 0xD1, CHR 0x8C]"

definition cyr_ch :: string where
  \<comment> \<open>h, hours\<close>
  "cyr_ch =
     [CHR 0xD1, CHR 0x87]"

definition cyr_Distantsiya :: string where
  \<comment> \<open>distance\<close>
  "cyr_Distantsiya =
     [CHR 0xD0, CHR 0x94, CHR 0xD0, CHR 0xB8, CHR 0xD1, CHR 0x81, CHR 0xD1,
      CHR 0x82, CHR 0xD0, CHR 0xB0, CHR 0xD0, CHR 0xBD, CHR 0xD1, CHR 0x86,
      CHR 0xD0, CHR 0xB8, CHR 0xD1, CHR 0x8F]"

definition cyr_km :: string where
  \<comment> \<open>km\<close>
  "cyr_km =
     [CHR 0xD0, CHR 0xBA, CHR 0xD0, CHR 0xBC]"

definition cyr_Sr :: string where
  \<comment> \<open>mean, abbreviated\<close>
  "cyr_Sr =
     [CHR 0xD0, CHR 0xA1, CHR 0xD1, CHR 0x80]"

definition cyr_skorost :: string where
  \<comment> \<open>speed\<close>
  "cyr_skorost =
     [CHR 0xD1, CHR 0x81, CHR 0xD0, CHR 0xBA, CHR 0xD0, CHR 0xBE, CHR 0xD1,
      CHR 0x80, CHR 0xD0, CHR 0xBE, CHR 0xD1, CHR 0x81, CHR 0xD1, CHR 0x82,
      CHR 0xD1, CHR 0x8C]"

definition cyr_Potracheno :: string where
  \<comment> \<open>spent\<close>
  "cyr_Potracheno =
     [CHR 0xD0, CHR 0x9F, CHR 0xD0, CHR 0xBE, CHR 0xD1, CHR 0x82, CHR 0xD1,
      CHR 0x80, CHR 0xD0, CHR 0xB0, CHR 0xD1, CHR 0x87, CHR 0xD0, CHR 0xB5,
      CHR 0xD0, CHR 0xBD, CHR 0xD0, CHR 0xBE]"

definition cyr_kkal :: string where
  \<comment> \<open>kcal\<close>
  "cyr_kkal =
     [CHR 0xD0, CHR 0xBA, CHR 0xD0, CHR 0xBA, CHR 0xD0, CHR 0xB0, CHR 0xD0, CHR 0xBB]"

definition cyr_Opredelite :: string where
  \<comment> \<open>define\<close>
  "cyr_Opredelite =
     [CHR 0xD0, CHR 0x9E, CHR 0xD0, CHR 0xBF, CHR 0xD1, CHR 0x80, CHR 0xD0,
      CHR 0xB5, CHR 0xD0, CHR 0xB4, CHR 0xD0, CHR 0xB5, CHR 0xD0, CHR 0xBB,
      CHR 0xD0, CHR 0xB8, CHR 0xD1, CHR 0x82, CHR 0xD0, CHR 0xB5]"

definition cyr_v :: string where
  \<comment> \<open>in\<close>
  "cyr_v =
     [CHR 0xD0, CHR 0xB2]"

definition cyr_ne :: string where
  \<comment> \<open>not\<close>
  "cyr_ne =
     [CHR 0xD0, CHR 0xBD, CHR 0xD0, CHR 0xB5]"

definition cyr_najden :: string where
  \<comment> \<open>found\<close>
  "cyr_najden =
     [CHR 0xD0, CHR 0xBD, CHR 0xD0, CHR 0xB0, CHR 0xD0, CHR 0xB9, CHR 0xD0,
      CHR 0xB4, CHR 0xD0, CHR 0xB5, CHR 0xD0, CHR 0xBD]"

definition cyr_Nevernoe :: string where
  \<comment> \<open>wrong\<close>
  "cyr_Nevernoe =
     [CHR 0xD0, CHR 0x9D, CHR 0xD0, CHR 0xB5, CHR 0xD0, CHR 0xB2, CHR 0xD0,
      CHR 0xB5, CHR 0xD1, CHR 0x80, CHR 0xD0, CHR 0xBD, CHR 0xD0, CHR 0xBE,
      CHR 0xD0, CHR 0xB5]"

definition cyr_chislo :: string where
  \<comment> \<open>number\<close>
  "cyr_chislo =
     [CHR 0xD1, CHR 0x87, CHR 0xD0, CHR 0xB8, CHR 0xD1, CHR 0x81, CHR 0xD0,
      CHR 0xBB, CHR 0xD0, CHR 0xBE]"

definition cyr_argumentov :: string where
  \<comment> \<open>of arguments\<close>
  "cyr_argumentov =
     [CHR 0xD0, CHR 0xB0, CHR 0xD1, CHR 0x80, CHR 0xD0, CHR 0xB3, CHR 0xD1,
      CHR 0x83, CHR 0xD0, CHR 0xBC, CHR 0xD0, CHR 0xB5, CHR 0xD0, CHR 0xBD,
      CHR 0xD1, CHR 0x82, CHR 0xD0, CHR 0xBE, CHR 0xD0, CHR 0xB2]"

definition cyr_Polucheno :: string where
  \<comment> \<open>received\<close>
  "cyr_Polucheno =
     [CHR 0xD0, CHR 0x9F, CHR 0xD0, CHR 0xBE, CHR 0xD0, CHR 0xBB, CHR 0xD1,
      CHR 0x83, CHR 0xD1, CHR 0x87, CHR 0xD0, CHR 0xB5, CHR 0xD0, CHR 0xBD,
      CHR 0xD0, CHR 0xBE]"

definition cyr_ozhidaetsya :: string where
  \<comment> \<open>is expected\<close>
  "cyr_ozhidaetsya =
     [CHR 0xD0, CHR 0xBE, CHR 0xD0, CHR 0xB6, CHR 0xD0, CHR 0xB8, CHR 0xD0,
      CHR 0xB4, CHR 0xD0, CHR 0xB0, CHR 0xD0, CHR 0xB5, CHR 0xD1, CHR 0x82,
      CHR 0xD1, CHR 0x81, CHR 0xD1, CHR 0x8F]"

text \<open>\<^verbatim>\<open>str(n)\<close> for a natural number: its decimal digits.\<close>

definition digit :: "nat \<Rightarrow> char" where
  "digit n = ''0123456789'' ! n"

fun str_nat :: "nat \<Rightarrow> string" where
  "str_nat n = (if n < 10 then [digit n] else str_nat (n div 10) @ [digit (n mod 10)])"

declare str_nat.simps [simp del]

text \<open>
  The format specification \<^verbatim>\<open>.3f\<close>. A finite float is printed in fixed-point
  notation with three digits after the point, its exact value rounded to the nearest
  thousandth, ties to even; a negative value keeps its sign when it rounds to zero, and
  so does a negative zero. An infinity and NaN are printed as words. An \<^verbatim>\<open>int\<close> is
  converted to a float first.
\<close>

definition float_format_3f :: "double \<Rightarrow> string" where
  "float_format_3f x =
     (case x of
        Finite q \<Rightarrow>
          (let n = nat (round_half_even (\<bar>q\<bar> * 1000))
           in (if q < 0 then ''-'' else '''') @ str_nat (n div 1000) @ ''.''
              @ [digit (n mod 1000 div 100), digit (n mod 100 div 10), digit (n mod 10)])
      | NegZero \<Rightarrow> ''-0.000''
      | PosInf \<Rightarrow> ''inf''
      | NegInf \<Rightarrow> ''-inf''
      | NaN \<Rightarrow> ''nan'')"

definition format_3f :: "pynum \<Rightarrow> error + string" where
  "format_3f x = and_then (to_float x) (\<lambda>a. Inr (float_format_3f a))"

section \<open>The classes\<close>

subsection \<open>InfoMessage\<close>

record InfoMessage =
  training_type :: string
  duration :: pynum
  distance :: pynum
  speed :: pynum
  calories :: pynum

text \<open>
  \<^verbatim>\<open>INFO.format(**asdict(self))\<close>: the template with its five fields filled in,
  formatted in the order of the template.
\<close>

definition get_message :: "InfoMessage \<Rightarrow> error + string" where
  "get_message m =
     and_then (format_3f (InfoMessage.duration m)) (\<lambda>duration_3f.
     and_then (format_3f (distance m)) (\<lambda>distance_3f.
     and_then (format_3f (speed m)) (\<lambda>speed_3f.
     and_then (format_3f (calories m)) (\<lambda>calories_3f.
       Inr (cyr_Tip @ '' '' @ cyr_trenirovki @ '': '' @ training_type m @ ''; ''
            @ cyr_Dlitelnost @ '': '' @ duration_3f @ '' '' @ cyr_ch @ ''.; ''
            @ cyr_Distantsiya @ '': '' @ distance_3f @ '' '' @ cyr_km @ ''; ''
            @ cyr_Sr @ ''. '' @ cyr_skorost @ '': '' @ speed_3f @ '' '' @ cyr_km @ ''/''
            @ cyr_ch @ ''; ''
            @ cyr_Potracheno @ '' '' @ cyr_kkal @ '': '' @ calories_3f @ ''.'')))))"

subsection \<open>Training and its subclasses\<close>

text \<open>
  An instance of \<^verbatim>\<open>Training\<close>, \<^verbatim>\<open>Running\<close>, \<^verbatim>\<open>SportsWalking\<close> or
  \<^verbatim>\<open>Swimming\<close>, with its fields in the order of declaration: those of the base class,
  then the subclass's own. A dataclass does not check the types of its fields, so a field
  holds whatever number was passed.
\<close>

datatype training =
    Training (action: pynum) (duration: pynum) (weight: pynum)
  | Running (action: pynum) (duration: pynum) (weight: pynum)
  | SportsWalking (action: pynum) (duration: pynum) (weight: pynum) (height: pynum)
  | Swimming (action: pynum) (duration: pynum) (weight: pynum)
      (length_pool: pynum) (count_pool: pynum)

datatype pyclass = TrainingClass | RunningClass | SportsWalkingClass | SwimmingClass

definition class_of :: "training \<Rightarrow> pyclass" where
  "class_of t =
     (case t of
        Training _ _ _ \<Rightarrow> TrainingClass
      | Running _ _ _ \<Rightarrow> RunningClass
      | SportsWalking _ _ _ _ \<Rightarrow> SportsWalkingClass
      | Swimming _ _ _ _ _ \<Rightarrow> SwimmingClass)"

definition class_name :: "pyclass \<Rightarrow> string" where
  "class_name c =
     (case c of
        TrainingClass \<Rightarrow> ''Training''
      | RunningClass \<Rightarrow> ''Running''
      | SportsWalkingClass \<Rightarrow> ''SportsWalking''
      | SwimmingClass \<Rightarrow> ''Swimming'')"

text \<open>\<^verbatim>\<open>fields(cls)\<close>: the names of the dataclass fields, inherited ones first.\<close>

definition fields :: "pyclass \<Rightarrow> string list" where
  "fields c =
     (let inherited = [''action'', ''duration'', ''weight'']
      in case c of
           TrainingClass \<Rightarrow> inherited
         | RunningClass \<Rightarrow> inherited
         | SportsWalkingClass \<Rightarrow> inherited @ [''height'']
         | SwimmingClass \<Rightarrow> inherited @ [''length_pool'', ''count_pool''])"

text \<open>
  \<^verbatim>\<open>cls(*data)\<close>: the generated \<^verbatim>\<open>__init__\<close> takes one positional argument for
  each field and raises \<^verbatim>\<open>TypeError\<close> on any other number of arguments.
\<close>

fun new :: "pyclass \<Rightarrow> pynum list \<Rightarrow> error + training" where
  "new TrainingClass [a, d, w] = Inr (Training a d w)"
| "new RunningClass [a, d, w] = Inr (Running a d w)"
| "new SportsWalkingClass [a, d, w, h] = Inr (SportsWalking a d w h)"
| "new SwimmingClass [a, d, w, lp, cp] = Inr (Swimming a d w lp cp)"
| "new c args = Inl TypeError"

text \<open>The class attributes; \<^verbatim>\<open>Swimming\<close> overrides \<^verbatim>\<open>LEN_STEP\<close>.\<close>

definition LEN_STEP :: "training \<Rightarrow> error + pynum" where
  "LEN_STEP t =
     (case t of
        Swimming _ _ _ _ _ \<Rightarrow> float_lit 1.38
      | _ \<Rightarrow> float_lit 0.65)"

definition M_IN_KM :: "error + pynum" where
  "M_IN_KM = int_lit 1000"

definition MIN_IN_HOUR :: "error + pynum" where
  "MIN_IN_HOUR = int_lit 60"

definition SPENT_CALORIES_ERROR :: "string \<Rightarrow> string" where
  \<comment> \<open>the template applied to the one argument of \<^verbatim>\<open>format\<close>\<close>
  "SPENT_CALORIES_ERROR name =
     cyr_Opredelite @ '' get_spent_calories '' @ cyr_v @ '' '' @ name @ ''.''"

definition CALORIES_MEAN_SPEED_MULTIPLIER :: "error + pynum" where
  "CALORIES_MEAN_SPEED_MULTIPLIER = int_lit 18"

definition CALORIES_MEAN_SPEED_SHIFT :: "error + pynum" where
  "CALORIES_MEAN_SPEED_SHIFT = float_lit 1.79"

definition WEIGHT_MULTIPLIER_1 :: "error + pynum" where
  "WEIGHT_MULTIPLIER_1 = float_lit 0.035"

definition WEIGHT_MULTIPLIER_2 :: "error + pynum" where
  "WEIGHT_MULTIPLIER_2 = float_lit 0.029"

definition KMH_TO_MPS_MULTIPLIER :: "error + pynum" where
  "KMH_TO_MPS_MULTIPLIER = float_lit 0.278"

definition SENTIMETERS_IN_METER :: "error + pynum" where
  "SENTIMETERS_IN_METER = int_lit 100"

definition MEAN_SPEED_TERM :: "error + pynum" where
  "MEAN_SPEED_TERM = float_lit 1.1"

definition WEIGHT_MULTIPLIER :: "error + pynum" where
  "WEIGHT_MULTIPLIER = int_lit 2"

text \<open>The methods. A field read \<^verbatim>\<open>self.f\<close> raises nothing.\<close>

definition get_distance :: "training \<Rightarrow> error + pynum" where
  "get_distance t = truediv (mul (Inr (action t)) (LEN_STEP t)) M_IN_KM"

definition get_mean_speed :: "training \<Rightarrow> error + pynum" where
  "get_mean_speed t =
     (case t of
        Swimming a d w lp cp \<Rightarrow> truediv (truediv (mul (Inr lp) (Inr cp)) M_IN_KM) (Inr d)
      | _ \<Rightarrow> truediv (get_distance t) (Inr (training.duration t)))"

definition get_spent_calories :: "(real \<Rightarrow> double) \<Rightarrow> training \<Rightarrow> error + pynum" where
  "get_spent_calories pw t =
     (case t of
        Training a d w \<Rightarrow>
          Inl (NotImplementedError (SPENT_CALORIES_ERROR (class_name (class_of t))))
      | Running a d w \<Rightarrow>
          mul
            (mul
              (truediv
                (mul
                  (add (mul CALORIES_MEAN_SPEED_MULTIPLIER (get_mean_speed t))
                       CALORIES_MEAN_SPEED_SHIFT)
                  (Inr w))
                M_IN_KM)
              (Inr d))
            MIN_IN_HOUR
      | SportsWalking a d w h \<Rightarrow>
          mul
            (add
              (mul WEIGHT_MULTIPLIER_1 (Inr w))
              (mul
                (mul
                  (truediv
                    (pow2nd pw (mul (get_mean_speed t) KMH_TO_MPS_MULTIPLIER))
                    (truediv (Inr h) SENTIMETERS_IN_METER))
                  WEIGHT_MULTIPLIER_2)
                (Inr w)))
            (mul (Inr d) MIN_IN_HOUR)
      | Swimming a d w lp cp \<Rightarrow>
          mul
            (mul
              (mul (add (get_mean_speed t) MEAN_SPEED_TERM) WEIGHT_MULTIPLIER)
              (Inr w))
            (Inr d))"

definition show_training_info :: "(real \<Rightarrow> double) \<Rightarrow> training \<Rightarrow> error + InfoMessage" where
  "show_training_info pw t =
     and_then (get_distance t) (\<lambda>dist.
     and_then (get_mean_speed t) (\<lambda>spd.
     and_then (get_spent_calories pw t) (\<lambda>cal.
       Inr \<lparr>training_type = class_name (class_of t),
            duration = training.duration t,
            distance = dist, speed = spd, calories = cal\<rparr>)))"

section \<open>Reading a package\<close>

definition TRAINING_DATA :: "string \<rightharpoonup> pyclass \<times> nat" where
  "TRAINING_DATA =
     [''SWM'' \<mapsto> (SwimmingClass, length (fields SwimmingClass)),
      ''RUN'' \<mapsto> (RunningClass, length (fields RunningClass)),
      ''WLK'' \<mapsto> (SportsWalkingClass, length (fields SportsWalkingClass))]"

definition WORKOUT_TYPE_ERROR :: "string \<Rightarrow> string" where
  \<comment> \<open>the template applied to the one argument of \<^verbatim>\<open>format\<close>\<close>
  "WORKOUT_TYPE_ERROR workout_type =
     cyr_Tip @ '' '' @ cyr_trenirovki @ '' '' @ workout_type @ '' '' @ cyr_ne @ '' ''
     @ cyr_najden"

definition WORKOUT_LEN_ERROR :: "string \<Rightarrow> nat \<Rightarrow> nat \<Rightarrow> string" where
  \<comment> \<open>the template applied to the three arguments of \<^verbatim>\<open>format\<close>\<close>
  "WORKOUT_LEN_ERROR workout_type received expected =
     cyr_Nevernoe @ '' '' @ cyr_chislo @ '' '' @ cyr_argumentov @ '' '' @ cyr_trenirovki
     @ '' '' @ workout_type @ ''. '' @ cyr_Polucheno @ '' '' @ str_nat received @ '', ''
     @ cyr_ozhidaetsya @ '' '' @ str_nat expected"

definition read_package :: "string \<Rightarrow> pynum list \<Rightarrow> error + training" where
  "read_package workout_type data =
     (case TRAINING_DATA workout_type of
        None \<Rightarrow> Inl (ValueError (WORKOUT_TYPE_ERROR workout_type))
      | Some (cls, n) \<Rightarrow>
          if n \<noteq> length data
          then Inl (ValueError (WORKOUT_LEN_ERROR workout_type (length data) n))
          else new cls data)"

text \<open>\<^verbatim>\<open>main\<close> prints one line; the model returns the line.\<close>

definition main :: "(real \<Rightarrow> double) \<Rightarrow> training \<Rightarrow> error + string" where
  "main pw t = and_then (show_training_info pw t) get_message"

section \<open>Vocabulary of the properties\<close>

text \<open>
  One C library that fits the model: its \<^verbatim>\<open>pow(a, 2.0)\<close> is the correctly rounded
  square. It stands for the C library wherever a property is evaluated on an example.
\<close>

definition rounded_square :: "real \<Rightarrow> double" where
  "rounded_square a = binary64 (a * a)"

section \<open>The registry and \<^verbatim>\<open>read_package\<close>\<close>

lemma TRAINING_DATA_SWM: "TRAINING_DATA ''SWM'' = Some (SwimmingClass, 5)"
  by (simp add: TRAINING_DATA_def fields_def)

lemma TRAINING_DATA_RUN: "TRAINING_DATA ''RUN'' = Some (RunningClass, 3)"
  by (simp add: TRAINING_DATA_def fields_def)

lemma TRAINING_DATA_WLK: "TRAINING_DATA ''WLK'' = Some (SportsWalkingClass, 4)"
  by (simp add: TRAINING_DATA_def fields_def)

lemma TRAINING_DATA_other:
  "workout_type \<notin> {''SWM'', ''RUN'', ''WLK''} \<Longrightarrow> TRAINING_DATA workout_type = None"
  by (simp add: TRAINING_DATA_def)

lemma dom_TRAINING_DATA: "dom TRAINING_DATA = {''SWM'', ''RUN'', ''WLK''}"
  by (auto simp: TRAINING_DATA_def)

lemma length_3: "length xs = 3 \<Longrightarrow> xs = [xs ! 0, xs ! 1, xs ! 2]"
  by (cases xs; cases "tl xs"; cases "tl (tl xs)") auto

lemma length_4: "length xs = 4 \<Longrightarrow> xs = [xs ! 0, xs ! 1, xs ! 2, xs ! 3]"
  by (cases xs; cases "tl xs"; cases "tl (tl xs)"; cases "tl (tl (tl xs))") auto

lemma length_5: "length xs = 5 \<Longrightarrow> xs = [xs ! 0, xs ! 1, xs ! 2, xs ! 3, xs ! 4]"
  by (cases xs; cases "tl xs"; cases "tl (tl xs)"; cases "tl (tl (tl xs))";
      cases "tl (tl (tl (tl xs)))") auto

text \<open>
  Claim C1. For each of the codes \<^verbatim>\<open>SWM\<close>, \<^verbatim>\<open>RUN\<close> and \<^verbatim>\<open>WLK\<close> and every
  argument list of the required length (5, 3 and 4), \<open>read_package\<close> returns an instance
  of the corresponding class (\<^verbatim>\<open>Swimming\<close>, \<^verbatim>\<open>Running\<close>, \<^verbatim>\<open>SportsWalking\<close>) whose
  fields are the arguments in order: \<^verbatim>\<open>action\<close>, \<^verbatim>\<open>duration\<close>, \<^verbatim>\<open>weight\<close>, then
  the fields the subclass declares.
\<close>

theorem read_package_constructs:
  "(length data = 5 \<longrightarrow>
      read_package ''SWM'' data
        = Inr (Swimming (data ! 0) (data ! 1) (data ! 2) (data ! 3) (data ! 4))) \<and>
   (length data = 3 \<longrightarrow>
      read_package ''RUN'' data = Inr (Running (data ! 0) (data ! 1) (data ! 2))) \<and>
   (length data = 4 \<longrightarrow>
      read_package ''WLK'' data
        = Inr (SportsWalking (data ! 0) (data ! 1) (data ! 2) (data ! 3)))"
proof (intro conjI impI)
  assume l: "length data = 5"
  have "new SwimmingClass [data ! 0, data ! 1, data ! 2, data ! 3, data ! 4]
          = Inr (Swimming (data ! 0) (data ! 1) (data ! 2) (data ! 3) (data ! 4))"
    by simp
  with l length_5 [OF l] show "read_package ''SWM'' data
        = Inr (Swimming (data ! 0) (data ! 1) (data ! 2) (data ! 3) (data ! 4))"
    by (simp add: read_package_def TRAINING_DATA_SWM)
next
  assume l: "length data = 3"
  have "new RunningClass [data ! 0, data ! 1, data ! 2]
          = Inr (Running (data ! 0) (data ! 1) (data ! 2))"
    by simp
  with l length_3 [OF l] show "read_package ''RUN'' data
        = Inr (Running (data ! 0) (data ! 1) (data ! 2))"
    by (simp add: read_package_def TRAINING_DATA_RUN)
next
  assume l: "length data = 4"
  have "new SportsWalkingClass [data ! 0, data ! 1, data ! 2, data ! 3]
          = Inr (SportsWalking (data ! 0) (data ! 1) (data ! 2) (data ! 3))"
    by simp
  with l length_4 [OF l] show "read_package ''WLK'' data
        = Inr (SportsWalking (data ! 0) (data ! 1) (data ! 2) (data ! 3))"
    by (simp add: read_package_def TRAINING_DATA_WLK)
qed

text \<open>The three packages of the program's own \<^verbatim>\<open>__main__\<close> block.\<close>

theorem read_package_constructs_witness:
  "length [PyInt 720, PyInt 1, PyInt 80, PyInt 25, PyInt 40] = 5 \<and>
   read_package ''SWM'' [PyInt 720, PyInt 1, PyInt 80, PyInt 25, PyInt 40]
     = Inr (Swimming (PyInt 720) (PyInt 1) (PyInt 80) (PyInt 25) (PyInt 40)) \<and>
   length [PyInt 15000, PyInt 1, PyInt 75] = 3 \<and>
   read_package ''RUN'' [PyInt 15000, PyInt 1, PyInt 75]
     = Inr (Running (PyInt 15000) (PyInt 1) (PyInt 75)) \<and>
   length [PyInt 9000, PyInt 1, PyInt 75, PyInt 180] = 4 \<and>
   read_package ''WLK'' [PyInt 9000, PyInt 1, PyInt 75, PyInt 180]
     = Inr (SportsWalking (PyInt 9000) (PyInt 1) (PyInt 75) (PyInt 180))"
  using read_package_constructs [of "[PyInt 720, PyInt 1, PyInt 80, PyInt 25, PyInt 40]"]
    read_package_constructs [of "[PyInt 15000, PyInt 1, PyInt 75]"]
    read_package_constructs [of "[PyInt 9000, PyInt 1, PyInt 75, PyInt 180]"]
  by simp

text \<open>
  Claim C2. For every code other than \<^verbatim>\<open>SWM\<close>, \<^verbatim>\<open>RUN\<close> and \<^verbatim>\<open>WLK\<close> and every
  argument list, \<open>read_package\<close> raises the \<^verbatim>\<open>ValueError\<close> of an unknown workout
  type, whose message is \<^verbatim>\<open>WORKOUT_TYPE_ERROR\<close> with the code in it.
\<close>

theorem read_package_unknown_type:
  "workout_type \<notin> {''SWM'', ''RUN'', ''WLK''} \<Longrightarrow>
   read_package workout_type data
     = Inl (ValueError (cyr_Tip @ '' '' @ cyr_trenirovki @ '' '' @ workout_type @ '' ''
                        @ cyr_ne @ '' '' @ cyr_najden))"
  by (simp add: read_package_def TRAINING_DATA_other WORKOUT_TYPE_ERROR_def)

theorem read_package_unknown_type_witness:
  "''XYZ'' \<notin> {''SWM'', ''RUN'', ''WLK''} \<and>
   read_package ''XYZ'' [PyInt 1, PyInt 2, PyInt 3]
     = Inl (ValueError (cyr_Tip @ '' '' @ cyr_trenirovki @ '' XYZ '' @ cyr_ne @ '' ''
                        @ cyr_najden))"
  using read_package_unknown_type [of "''XYZ''" "[PyInt 1, PyInt 2, PyInt 3]"]
  by simp

text \<open>
  Claim C3. For a registered code and an argument list whose length is not the number of
  fields of its class (3 for \<^verbatim>\<open>RUN\<close>, 4 for \<^verbatim>\<open>WLK\<close>, 5 for \<^verbatim>\<open>SWM\<close>), shorter or
  longer, \<open>read_package\<close> raises the \<^verbatim>\<open>ValueError\<close> of a wrong number of arguments,
  whose message is \<^verbatim>\<open>WORKOUT_LEN_ERROR\<close> with the code, the number of arguments
  received and the number expected in it.
\<close>

theorem read_package_wrong_length:
  "(workout_type, expected) \<in> {(''RUN'', 3), (''WLK'', 4), (''SWM'', 5)} \<Longrightarrow>
   length data \<noteq> expected \<Longrightarrow>
   read_package workout_type data
     = Inl (ValueError (cyr_Nevernoe @ '' '' @ cyr_chislo @ '' '' @ cyr_argumentov @ '' ''
                        @ cyr_trenirovki @ '' '' @ workout_type @ ''. '' @ cyr_Polucheno
                        @ '' '' @ str_nat (length data) @ '', '' @ cyr_ozhidaetsya @ '' ''
                        @ str_nat expected))"
  by (auto simp: read_package_def TRAINING_DATA_SWM TRAINING_DATA_RUN TRAINING_DATA_WLK
        WORKOUT_LEN_ERROR_def)

text \<open>One argument short, and one too many.\<close>

theorem read_package_wrong_length_witness:
  "(''RUN'', 3) \<in> {(''RUN'', 3), (''WLK'', 4), (''SWM'', 5)} \<and>
   length [PyInt 15000, PyInt 1] \<noteq> 3 \<and>
   read_package ''RUN'' [PyInt 15000, PyInt 1]
     = Inl (ValueError (cyr_Nevernoe @ '' '' @ cyr_chislo @ '' '' @ cyr_argumentov @ '' ''
                        @ cyr_trenirovki @ '' RUN. '' @ cyr_Polucheno @ '' 2, ''
                        @ cyr_ozhidaetsya @ '' 3'')) \<and>
   length [PyInt 15000, PyInt 1, PyInt 75, PyInt 180] \<noteq> 3 \<and>
   read_package ''RUN'' [PyInt 15000, PyInt 1, PyInt 75, PyInt 180]
     = Inl (ValueError (cyr_Nevernoe @ '' '' @ cyr_chislo @ '' '' @ cyr_argumentov @ '' ''
                        @ cyr_trenirovki @ '' RUN. '' @ cyr_Polucheno @ '' 4, ''
                        @ cyr_ozhidaetsya @ '' 3''))"
  using read_package_wrong_length [of "''RUN''" 3 "[PyInt 15000, PyInt 1]"]
    read_package_wrong_length [of "''RUN''" 3 "[PyInt 15000, PyInt 1, PyInt 75, PyInt 180]"]
  by (simp add: str_nat.simps digit_def)

lemma type_error_is_not_len_error:
  "WORKOUT_TYPE_ERROR workout_type \<noteq> WORKOUT_LEN_ERROR c received expected"
  by (simp add: WORKOUT_TYPE_ERROR_def WORKOUT_LEN_ERROR_def cyr_Tip_def cyr_Nevernoe_def)

text \<open>
  Claim C9. The code is looked up before the arguments are counted: for a code that is
  not a key of \<^verbatim>\<open>TRAINING_DATA\<close>, \<open>read_package\<close> raises the error of an unknown
  workout type whatever the length of the argument list, and never the error of a wrong
  number of arguments.
\<close>

theorem unknown_type_decided_before_length:
  "workout_type \<notin> dom TRAINING_DATA \<Longrightarrow>
   read_package workout_type data = Inl (ValueError (WORKOUT_TYPE_ERROR workout_type)) \<and>
   read_package workout_type data
     \<noteq> Inl (ValueError (WORKOUT_LEN_ERROR c received expected))"
proof -
  assume "workout_type \<notin> dom TRAINING_DATA"
  then have "TRAINING_DATA workout_type = None"
    by blast
  then show ?thesis
    by (simp add: read_package_def type_error_is_not_len_error)
qed

theorem unknown_type_decided_before_length_witness:
  "''XYZ'' \<notin> dom TRAINING_DATA \<and>
   read_package ''XYZ'' [PyInt 1, PyInt 2] = Inl (ValueError (WORKOUT_TYPE_ERROR ''XYZ'')) \<and>
   read_package ''XYZ'' [PyInt 1, PyInt 2]
     \<noteq> Inl (ValueError (WORKOUT_LEN_ERROR ''XYZ'' 2 3))"
proof -
  have "''XYZ'' \<notin> dom TRAINING_DATA"
    by (simp add: dom_TRAINING_DATA)
  with unknown_type_decided_before_length [of "''XYZ''" "[PyInt 1, PyInt 2]" "''XYZ''" 2 3]
  show ?thesis
    by blast
qed

section \<open>Evaluation\<close>

lemmas rounding_eval = binary64_def ilog2_def pow2_def round_half_even_def bit_length.simps
  Let_def

lemmas arith_eval = mul_def add_def truediv_def pow2nd_def and_then_def py_mul_def py_add_def
  py_truediv_def py_pow2_def to_float_def int_lit_def float_lit_def float_mul_def
  float_add_def float_div_def finite_value_def negative_def signed_zero_def signed_inf_def

lemmas consts_unfold = LEN_STEP_def M_IN_KM_def MIN_IN_HOUR_def
  CALORIES_MEAN_SPEED_MULTIPLIER_def CALORIES_MEAN_SPEED_SHIFT_def WEIGHT_MULTIPLIER_1_def
  WEIGHT_MULTIPLIER_2_def KMH_TO_MPS_MULTIPLIER_def SENTIMETERS_IN_METER_def
  MEAN_SPEED_TERM_def WEIGHT_MULTIPLIER_def

lemmas method_eval = get_distance_def get_mean_speed_def get_spent_calories_def consts_unfold

lemmas format_eval = format_3f_def float_format_3f_def str_nat.simps digit_def

section \<open>The package \<^verbatim>\<open>('RUN', [15000, 1, 75])\<close>\<close>

text \<open>
  Claim C7 says that the calories of this package are about 798.75. They are not: the
  method returns the float nearest to 797.805, more than 0.9 away from 798.75 and
  printed as \<^verbatim>\<open>797.805\<close>.
\<close>

theorem Running_package_calories_counterexample:
  "and_then (read_package ''RUN'' [PyInt 15000, PyInt 1, PyInt 75])
       (get_spent_calories rounded_square)
     = Inr (PyFloat (Finite (7017566993582653 / 8796093022208))) \<and>
   (9 / 10 :: real) < \<bar>7017566993582653 / 8796093022208 - 798.75\<bar> \<and>
   format_3f (PyFloat (Finite (7017566993582653 / 8796093022208))) = Inr ''797.805''"
proof -
  have pkg: "read_package ''RUN'' [PyInt 15000, PyInt 1, PyInt 75]
      = Inr (Running (PyInt 15000) (PyInt 1) (PyInt 75))"
    by (simp add: read_package_def TRAINING_DATA_RUN)
  have 1: "and_then (read_package ''RUN'' [PyInt 15000, PyInt 1, PyInt 75])
       (get_spent_calories rounded_square)
     = Inr (PyFloat (Finite (7017566993582653 / 8796093022208)))"
    unfolding pkg by (simp add: method_eval arith_eval rounding_eval)
  have 2: "(9 / 10 :: real) < \<bar>7017566993582653 / 8796093022208 - 798.75\<bar>"
    by simp
  have 3: "format_3f (PyFloat (Finite (7017566993582653 / 8796093022208)))
     = Inr ''797.805''"
    by (simp add: format_eval to_float_def and_then_def round_half_even_def)
  from 1 2 3 show ?thesis
    by blast
qed

text \<open>
  Claim C7, amended. For the code \<^verbatim>\<open>RUN\<close> with the arguments
  \<^verbatim>\<open>[15000, 1, 75]\<close> the distance is the float 9.75, the mean speed is the float
  9.75, and the calories are the float nearest to 797.805, which is the value of
  \<^verbatim>\<open>(18 * 9.75 + 1.79) * 75 / 1000 * 1 * 60\<close> in exact arithmetic. The calories of
  \<^verbatim>\<open>Running\<close> do not call the C library, so they are the same for every \<open>pw\<close>.
\<close>

theorem Running_package_metrics:
  "and_then (read_package ''RUN'' [PyInt 15000, PyInt 1, PyInt 75]) get_distance
     = Inr (PyFloat (Finite 9.75)) \<and>
   and_then (read_package ''RUN'' [PyInt 15000, PyInt 1, PyInt 75]) get_mean_speed
     = Inr (PyFloat (Finite 9.75)) \<and>
   and_then (read_package ''RUN'' [PyInt 15000, PyInt 1, PyInt 75]) (get_spent_calories pw)
     = Inr (PyFloat (binary64 797.805)) \<and>
   binary64 797.805 = Finite (7017566993582653 / 8796093022208) \<and>
   \<bar>7017566993582653 / 8796093022208 - 797.805\<bar> < (1 / 10 ^ 12 :: real) \<and>
   (18 * 9.75 + 1.79) * 75 / 1000 * 1 * 60 = (797.805 :: real)"
proof -
  let ?t = "Running (PyInt 15000) (PyInt 1) (PyInt 75)"
  have pkg: "read_package ''RUN'' [PyInt 15000, PyInt 1, PyInt 75] = Inr ?t"
    by (simp add: read_package_def TRAINING_DATA_RUN)
  have 1: "and_then (Inr ?t) get_distance = Inr (PyFloat (Finite 9.75))"
    by (simp add: method_eval arith_eval rounding_eval)
  have 2: "and_then (Inr ?t) get_mean_speed = Inr (PyFloat (Finite 9.75))"
    by (simp add: method_eval arith_eval rounding_eval)
  have 4: "binary64 797.805 = Finite (7017566993582653 / 8796093022208)"
    by (simp add: rounding_eval)
  have 3: "and_then (Inr ?t) (get_spent_calories pw) = Inr (PyFloat (binary64 797.805))"
    unfolding 4 by (simp add: method_eval arith_eval rounding_eval)
  have 5: "\<bar>7017566993582653 / 8796093022208 - 797.805\<bar> < (1 / 10 ^ 12 :: real)"
    by simp
  have 6: "(18 * 9.75 + 1.79) * 75 / 1000 * 1 * 60 = (797.805 :: real)"
    by simp
  from 1 2 3 4 5 6 show ?thesis
    unfolding pkg by blast
qed

end
